theory Spec2Isabelle
  imports Main "HOL-Library.Word"
begin

section \<open>The test-server helper of testutil/server.go\<close>

text \<open>
  The Go types are modelled on a 64-bit platform: \<open>int\<close> and \<open>uint64\<close> are both
  64-bit words, whose addition wraps around as Go's does. A signed reading of an
  \<open>int\<close> is \<open>sint\<close>. A pointer to a struct that may be \<open>nil\<close> is an option.
\<close>

type_synonym uint64 = "64 word"
type_synonym go_int = "64 word"

subsection \<open>Configuration structs\<close>

record TestPortConfig =
  DNS :: go_int
  HTTP :: go_int
  RPC :: go_int
  SerfLan :: go_int
  SerfWan :: go_int
  Server :: go_int

record TestAddressConfig =
  HTTP_addr :: string

record TestServerConfig =
  Bootstrap :: bool
  Server_flag :: bool
  DataDir :: string
  LogLevel :: string
  Addresses :: "TestAddressConfig option"
  Ports :: "TestPortConfig option"

subsection \<open>Index allocation and default ports\<close>

text \<open>
  \<open>atomic.AddUint64(addr, delta)\<close> adds \<open>delta\<close> to the cell and returns the new
  value; the model returns the new value and the new content of the cell.
\<close>

definition atomic_AddUint64 :: "uint64 \<Rightarrow> uint64 \<Rightarrow> uint64 \<times> uint64" where
  "atomic_AddUint64 cell delta = (cell + delta, cell + delta)"

text \<open>
  Line 41 of \<open>defaultServerConfig\<close>: \<open>idx := int(atomic.AddUint64(&offset, 1))\<close>.
  The conversion from \<open>uint64\<close> to \<open>int\<close> keeps the 64 bits.
\<close>

definition next_idx :: "uint64 \<Rightarrow> go_int \<times> uint64" where
  "next_idx offset = (case atomic_AddUint64 offset 1 of (v, offset') \<Rightarrow> (ucast v, offset'))"

text \<open>The \<open>Ports\<close> literal of \<open>defaultServerConfig\<close> (lines 47 to 54).\<close>

definition defaultPorts :: "go_int \<Rightarrow> TestPortConfig" where
  "defaultPorts idx =
     \<lparr> DNS = 19000 + idx,
       HTTP = 18800 + idx,
       RPC = 18600 + idx,
       SerfLan = 18200 + idx,
       SerfWan = 18400 + idx,
       Server = 18000 + idx \<rparr>"

text \<open>The struct literal returned by \<open>defaultServerConfig\<close> (lines 43 to 55).\<close>

definition defaultConfigFor :: "go_int \<Rightarrow> TestServerConfig" where
  "defaultConfigFor idx =
     \<lparr> Bootstrap = True,
       Server_flag = True,
       DataDir = [],
       LogLevel = ''debug'',
       Addresses = None,
       Ports = Some (defaultPorts idx) \<rparr>"

text \<open>
  \<open>defaultServerConfig\<close> reads and updates the package variable \<open>offset\<close>: the model
  takes its value and returns the configuration with the new value.
\<close>

definition defaultServerConfig :: "uint64 \<Rightarrow> TestServerConfig \<times> uint64" where
  "defaultServerConfig offset =
     (case next_idx offset of (idx, offset') \<Rightarrow> (defaultConfigFor idx, offset'))"

text \<open>The six ports of a port configuration, in the order of the struct's fields.\<close>

definition port_list :: "TestPortConfig \<Rightarrow> go_int list" where
  "port_list p = [DNS p, HTTP p, RPC p, SerfLan p, SerfWan p, Server p]"

text \<open>
  The indices handed out by \<open>n\<close> calls of \<open>defaultServerConfig\<close> made one after the
  other, the counter starting at \<open>offset\<close>.
\<close>

fun alloc_seq :: "nat \<Rightarrow> uint64 \<Rightarrow> go_int list" where
  "alloc_seq 0 offset = []"
| "alloc_seq (Suc n) offset =
     (case next_idx offset of (idx, offset') \<Rightarrow> idx # alloc_seq n offset')"

subsection \<open>Errors, outcomes and events\<close>

text \<open>
  The \<open>error\<close> values of the program: those returned by the operating system and the
  libraries (opaque, carrying their message), the two built by \<open>fmt.Errorf\<close> in the
  readiness check, and the runtime error of a \<open>nil\<close> pointer dereference.
\<close>

datatype error =
    OSError string
  | LeaderStatusError string
  | IndexZeroError
  | NilDereference

text \<open>
  How a call of a Go function ends: it returns, it panics with a value (an \<open>error\<close>
  interface value, which may be \<open>nil\<close>), or it does not come back.
\<close>

datatype 'a exec = Returns 'a | Panics "error option" | Diverges

text \<open>The places of \<open>NewTestServerConfig\<close> that call \<open>t.Fatalf\<close>.\<close>

datatype site = AtTempDir | AtTempFile | AtMarshal | AtWrite | AtStart | AtWaitForLeader

text \<open>
  How a call made on behalf of a test ends: besides the above, \<open>t.SkipNow\<close> and
  \<open>t.Fatalf\<close> leave the function at once (they end the goroutine, running the
  deferred calls).
\<close>

datatype 'a test_exec =
    Done 'a
  | Skipped
  | Fatal site error
  | Panicked "error option"
  | Hangs

subsection \<open>The configuration document\<close>

text \<open>
  \<open>json.Marshal\<close> is modelled up to the text of the document: the result is the
  tree of the document, an object listing its members in the order of the struct's
  fields. Every field of the three structs carries \<open>omitempty\<close>: a \<open>false\<close>, a
  \<open>0\<close>, an empty string or a \<open>nil\<close> pointer leaves its member out. An \<open>int\<close> is
  written as its signed value. A \<open>JString\<close> holds the bytes that the string of the
  document denotes: an escape in the text of the document denotes the character it
  stands for.
\<close>

datatype json = JBool bool | JNumber int | JString string | JObject "(string \<times> json) list"

text \<open>
  A Go string is a sequence of bytes. \<open>rune_size s\<close> is the number of bytes of the
  well-formed UTF-8 sequence that starts \<open>s\<close>, and 0 where \<open>utf8.DecodeRuneInString\<close>
  gives \<open>(RuneError, 1)\<close>: a byte that cannot start a sequence, a sequence cut short,
  or a following byte outside the range that the first byte allows.
\<close>

definition byte :: "char \<Rightarrow> nat" where
  "byte c = of_char c"

fun rune_size :: "string \<Rightarrow> nat" where
  "rune_size [] = 0"
| "rune_size (c # cs) =
     (let b0 = byte c in
      if b0 < 128 then 1
      else if b0 < 194 \<or> 244 < b0 then 0
      else
        (let sz = (if b0 < 224 then 2 else if b0 < 240 then 3 else 4 :: nat);
             lo = (if b0 = 224 then 160 else if b0 = 240 then 144 else 128);
             hi = (if b0 = 237 then 159 else if b0 = 244 then 143 else 191)
         in if Suc (length cs) < sz then 0
            else if byte (cs ! 0) < lo \<or> hi < byte (cs ! 0) then 0
            else if sz \<le> 2 then 2
            else if byte (cs ! 1) < 128 \<or> 191 < byte (cs ! 1) then 0
            else if sz \<le> 3 then 3
            else if byte (cs ! 2) < 128 \<or> 191 < byte (cs ! 2) then 0
            else 4))"

declare rune_size.simps [simp del]

text \<open>
  What the encoder makes of a string: it goes through the bytes, keeps every well-formed
  UTF-8 sequence, and writes the character U+FFFD (the bytes EF BF BD) for each byte that does not
  start one.
\<close>

function json_string_value :: "string \<Rightarrow> string" where
  "json_string_value [] = []"
| "json_string_value (c # cs) =
     (if rune_size (c # cs) = 0 then [CHR 0xEF, CHR 0xBF, CHR 0xBD] @ json_string_value cs
      else take (rune_size (c # cs)) (c # cs)
           @ json_string_value (drop (rune_size (c # cs)) (c # cs)))"
  by pat_completeness auto
termination
  by (relation "measure length") auto

text \<open>\<open>utf8.ValidString\<close>: the string is a sequence of well-formed UTF-8 sequences.\<close>

function ValidString :: "string \<Rightarrow> bool" where
  "ValidString [] = True"
| "ValidString (c # cs) =
     (if rune_size (c # cs) = 0 then False
      else ValidString (drop (rune_size (c # cs)) (c # cs)))"
  by pat_completeness auto
termination
  by (relation "measure length") auto

declare json_string_value.simps(2) [simp del] ValidString.simps(2) [simp del]

definition omitempty_bool :: "string \<Rightarrow> bool \<Rightarrow> (string \<times> json) list" where
  "omitempty_bool k b = (if b then [(k, JBool b)] else [])"

definition omitempty_int :: "string \<Rightarrow> go_int \<Rightarrow> (string \<times> json) list" where
  "omitempty_int k v = (if v = 0 then [] else [(k, JNumber (sint v))])"

definition omitempty_string :: "string \<Rightarrow> string \<Rightarrow> (string \<times> json) list" where
  "omitempty_string k s = (if s = [] then [] else [(k, JString (json_string_value s))])"

definition omitempty_ptr :: "string \<Rightarrow> ('a \<Rightarrow> json) \<Rightarrow> 'a option \<Rightarrow> (string \<times> json) list" where
  "omitempty_ptr k enc p = (case p of None \<Rightarrow> [] | Some x \<Rightarrow> [(k, enc x)])"

definition Marshal_TestPortConfig :: "TestPortConfig \<Rightarrow> json" where
  "Marshal_TestPortConfig p =
     JObject (omitempty_int ''dns'' (DNS p) @ omitempty_int ''http'' (HTTP p)
       @ omitempty_int ''rpc'' (RPC p) @ omitempty_int ''serf_lan'' (SerfLan p)
       @ omitempty_int ''serf_wan'' (SerfWan p) @ omitempty_int ''server'' (Server p))"

definition Marshal_TestAddressConfig :: "TestAddressConfig \<Rightarrow> json" where
  "Marshal_TestAddressConfig a = JObject (omitempty_string ''http'' (HTTP_addr a))"

definition Marshal_TestServerConfig :: "TestServerConfig \<Rightarrow> json" where
  "Marshal_TestServerConfig c =
     JObject (omitempty_bool ''bootstrap'' (Bootstrap c) @ omitempty_bool ''server'' (Server_flag c)
       @ omitempty_string ''data_dir'' (DataDir c) @ omitempty_string ''log_level'' (LogLevel c)
       @ omitempty_ptr ''addresses'' Marshal_TestAddressConfig (Addresses c)
       @ omitempty_ptr ''ports'' Marshal_TestPortConfig (Ports c))"

text \<open>\<open>json.Marshal(consulConfig)\<close>: for these struct types the encoder has no error.\<close>

definition json_Marshal :: "TestServerConfig \<Rightarrow> error + json" where
  "json_Marshal c = Inr (Marshal_TestServerConfig c)"

text \<open>The member of a document under a name, when the document is an object that has it.\<close>

fun json_member :: "json \<Rightarrow> string \<Rightarrow> json option" where
  "json_member (JObject kvs) k = map_of kvs k"
| "json_member _ k = None"

subsection \<open>Formatting\<close>

text \<open>The decimal digits of a natural number, and \<open>fmt.Sprintf("%d", v)\<close> on an \<open>int\<close>.\<close>

function dec_nat :: "nat \<Rightarrow> string" where
  "dec_nat n =
     (if n < 10 then [''0123456789'' ! n] else dec_nat (n div 10) @ [''0123456789'' ! (n mod 10)])"
  by pat_completeness auto
termination
  by (relation "measure id") auto

declare dec_nat.simps [simp del]

definition fmt_d :: "go_int \<Rightarrow> string" where
  "fmt_d v = (if sint v < 0 then CHR ''-'' # dec_nat (nat (- sint v)) else dec_nat (nat (sint v)))"

subsection \<open>The readiness check\<close>

text \<open>
  A response of \<open>http.Get\<close>, reduced to its header: a map from canonical keys to the
  lists of their values, as \<open>http.Header\<close> is.
\<close>

record Response =
  Header :: "string \<rightharpoonup> string list"

definition upper_char :: "char \<Rightarrow> char" where
  "upper_char c =
     (if 97 \<le> (of_char c :: nat) \<and> (of_char c :: nat) \<le> 122 then char_of ((of_char c :: nat) - 32) else c)"

definition lower_char :: "char \<Rightarrow> char" where
  "lower_char c =
     (if 65 \<le> (of_char c :: nat) \<and> (of_char c :: nat) \<le> 90 then char_of ((of_char c :: nat) + 32) else c)"

text \<open>
  \<open>textproto.CanonicalMIMEHeaderKey\<close> on a key of letters, digits and hyphens (the two
  keys of this program are such): the first letter and every letter after a hyphen in
  upper case, the others in lower case.
\<close>

fun canonical_from :: "bool \<Rightarrow> string \<Rightarrow> string" where
  "canonical_from upper [] = []"
| "canonical_from upper (c # cs) =
     (if upper then upper_char c else lower_char c) # canonical_from (c = CHR ''-'') cs"

definition CanonicalMIMEHeaderKey :: "string \<Rightarrow> string" where
  "CanonicalMIMEHeaderKey s = canonical_from True s"

text \<open>
  \<open>Header.Get(key)\<close>: the first value stored under the canonical form of the key, the
  empty string when there is none.
\<close>

definition Header_Get :: "(string \<rightharpoonup> string list) \<Rightarrow> string \<Rightarrow> string" where
  "Header_Get h key =
     (case h (CanonicalMIMEHeaderKey key) of
        None \<Rightarrow> []
      | Some [] \<Rightarrow> []
      | Some (v # _) \<Rightarrow> v)"

text \<open>
  The closure that \<open>waitForLeader\<close> hands to \<open>WaitForResult\<close> (lines 134 to 151), as a
  function of what \<open>http.Get(url)\<close> gave: it yields the lines printed on the standard
  output and the pair it returns.
\<close>

definition leaderCheck :: "error + Response \<Rightarrow> string list \<times> bool \<times> error option" where
  "leaderCheck got =
     (case got of
        Inl err \<Rightarrow> ([], False, Some err)
      | Inr resp \<Rightarrow>
          (let leader = Header_Get (Header resp) ''X-Consul-KnownLeader'' in
           if leader \<noteq> ''true'' then ([leader], False, Some (LeaderStatusError leader))
           else if Header_Get (Header resp) ''X-Consul-Index'' = ''0''
             then ([], False, Some IndexZeroError)
           else ([], True, None)))"

subsection \<open>Waiting for the leader\<close>

record TestServer =
  pid :: go_int
  dataDir :: string
  config :: TestServerConfig

text \<open>
  \<open>WaitForResult(test, error)\<close> is defined in another file of the package. A poller is
  taken as a parameter: it is given the pair that the \<open>k\<close>-th call of \<open>test\<close> returns
  (counting from 0) and what a call of the give-up handler does.
\<close>

type_synonym poller =
  "(nat \<Rightarrow> bool \<times> error option) \<Rightarrow> (error option \<Rightarrow> unit exec) \<Rightarrow> unit exec"

text \<open>
  Modelled from the spec: \<open>WaitForResult\<close>, whose source is not in \<open>server.go\<close>. The
  poller calls the check again and again; on \<open>(true, _)\<close> it returns at once, on
  \<open>(false, err)\<close> it retries; after a bounded number of attempts without success it
  calls the give-up handler with the last error it saw and stops. The bound is a
  parameter. \<open>WaitForResult_from n k seen\<close> has \<open>n\<close> attempts left, the next one being
  the \<open>k\<close>-th call of the check.
\<close>

fun WaitForResult_from ::
  "nat \<Rightarrow> nat \<Rightarrow> error option \<Rightarrow> (nat \<Rightarrow> bool \<times> error option) \<Rightarrow> (error option \<Rightarrow> unit exec)
    \<Rightarrow> unit exec" where
  "WaitForResult_from 0 k seen test on_give_up = on_give_up seen"
| "WaitForResult_from (Suc n) k seen test on_give_up =
     (case test k of
        (True, _) \<Rightarrow> Returns ()
      | (False, err) \<Rightarrow> WaitForResult_from n (Suc k) err test on_give_up)"

definition WaitForResult :: "nat \<Rightarrow> poller" where
  "WaitForResult bound test on_give_up = WaitForResult_from bound 0 None test on_give_up"

text \<open>
  \<open>waitForLeader\<close> (lines 131 to 156). \<open>get k url\<close> is what the \<open>k\<close>-th call of
  \<open>http.Get(url)\<close> gives. Reading \<open>s.config.Ports.HTTP\<close> through a \<open>nil\<close> \<open>Ports\<close>
  is a runtime panic. The give-up handler is \<open>func(err error) { panic(err) }\<close>; the
  only \<open>return\<close> statement is \<open>return nil\<close>.
\<close>

definition waitForLeader ::
  "poller \<Rightarrow> TestServer \<Rightarrow> (nat \<Rightarrow> string \<Rightarrow> error + Response) \<Rightarrow> (error option) exec" where
  "waitForLeader W s get =
     (case Ports (config s) of
        None \<Rightarrow> Panics (Some NilDereference)
      | Some ports \<Rightarrow>
          (let url = ''http://127.0.0.1:'' @ fmt_d (HTTP ports) @ ''/v1/catalog/nodes'' in
           case W (\<lambda>k. snd (leaderCheck (get k url))) (\<lambda>err. Panics err) of
             Returns _ \<Rightarrow> Returns None
           | Panics v \<Rightarrow> Panics v
           | Diverges \<Rightarrow> Diverges))"

subsection \<open>Starting and stopping a server\<close>

text \<open>The calls that act on the test or on the operating system, with their arguments.\<close>

datatype event =
    LookPath_call string
  | Log_call string
  | SkipNow_call
  | Fatalf_call error
  | TempDir_call string string
  | TempFile_call string string
  | Write_call string json
  | Close_call string
  | Start_call "string list"
  | Run_call "string list"
  | Remove_call string
  | RemoveAll_call string

text \<open>
  What the environment answers to the calls of \<open>NewTestServerConfig\<close>:
  \<open>exec.LookPath("consul")\<close>, \<open>ioutil.TempDir\<close> (the directory), \<open>ioutil.TempFile\<close>
  (the name of the file), \<open>configFile.Write\<close>, \<open>cmd.Start\<close> (the pid of the process)
  and the successive calls of \<open>http.Get\<close>.
\<close>

record Env =
  lookPath :: "error + string"
  tempDir :: "error + string"
  tempFile :: "error + string"
  fileWrite :: "error option"
  cmdStart :: "error + go_int"
  httpGet :: "nat \<Rightarrow> string \<Rightarrow> error + Response"

text \<open>
  Lines 85 to 119 of \<open>NewTestServerConfig\<close>, once the data directory and the
  configuration file exist. The callback, when there is one, is the change it makes to
  the configuration it is given. The result is how the function ends, the calls made in
  order (those of the poll left out), and the new value of \<open>offset\<close>.
\<close>

definition launch ::
  "poller \<Rightarrow> Env \<Rightarrow> (TestServerConfig \<Rightarrow> TestServerConfig) option \<Rightarrow> string \<Rightarrow> string \<Rightarrow> uint64
    \<Rightarrow> TestServer test_exec \<times> event list \<times> uint64" where
  "launch W env cb dir configFile offset =
     (case defaultServerConfig offset of
        (c0, offset') \<Rightarrow>
          (let c1 = c0\<lparr>DataDir := dir\<rparr>;
               consulConfig = (case cb of None \<Rightarrow> c1 | Some f \<Rightarrow> f c1)
           in case json_Marshal consulConfig of
                Inl err \<Rightarrow> (Fatal AtMarshal err, [Fatalf_call err], offset')
              | Inr configContent \<Rightarrow>
                  (case fileWrite env of
                     Some err \<Rightarrow>
                       (Fatal AtWrite err,
                        [Write_call configFile configContent, Fatalf_call err], offset')
                   | None \<Rightarrow>
                       (let evs = [Write_call configFile configContent, Close_call configFile,
                                   Start_call [''consul'', ''agent'', ''-config-file'', configFile]]
                        in case cmdStart env of
                             Inl err \<Rightarrow> (Fatal AtStart err, evs @ [Fatalf_call err], offset')
                           | Inr p \<Rightarrow>
                               (let server = \<lparr>pid = p, dataDir = dir, config = consulConfig\<rparr>
                                in case waitForLeader W server (httpGet env) of
                                     Returns (Some err) \<Rightarrow>
                                       (Fatal AtWaitForLeader err, evs @ [Fatalf_call err], offset')
                                   | Returns None \<Rightarrow> (Done server, evs, offset')
                                   | Panics v \<Rightarrow> (Panicked v, evs, offset')
                                   | Diverges \<Rightarrow> (Hangs, evs, offset'))))))"

text \<open>
  \<open>NewTestServerConfig\<close> (lines 68 to 120). \<open>t.SkipNow\<close> and \<open>t.Fatalf\<close> end the
  function where they are called. The removal of the configuration file is deferred
  once the file exists, and runs however the rest ends, unless it never ends.
\<close>

definition NewTestServerConfig ::
  "poller \<Rightarrow> Env \<Rightarrow> (TestServerConfig \<Rightarrow> TestServerConfig) option \<Rightarrow> uint64
    \<Rightarrow> TestServer test_exec \<times> event list \<times> uint64" where
  "NewTestServerConfig W env cb offset =
     (if (case lookPath env of Inl err \<Rightarrow> True | Inr path \<Rightarrow> path = [])
      then (Skipped,
            [LookPath_call ''consul'', Log_call ''consul not found on $PATH, skipping'',
             SkipNow_call], offset)
      else case tempDir env of
             Inl err \<Rightarrow>
               (Fatal AtTempDir err,
                [LookPath_call ''consul'', TempDir_call [] ''consul'', Fatalf_call err], offset)
           | Inr dir \<Rightarrow>
               (case tempFile env of
                  Inl err \<Rightarrow>
                    (Fatal AtTempFile err,
                     [LookPath_call ''consul'', TempDir_call [] ''consul'',
                      TempFile_call [] ''consul'', Fatalf_call err], offset)
                | Inr configFile \<Rightarrow>
                    (case launch W env cb dir configFile offset of
                       (out, evs, offset') \<Rightarrow>
                         (out,
                          [LookPath_call ''consul'', TempDir_call [] ''consul'',
                           TempFile_call [] ''consul''] @ evs
                          @ (if out = Hangs then [] else [Remove_call configFile]),
                          offset'))))"

text \<open>\<open>NewTestServer\<close> (lines 64 to 66) passes \<open>nil\<close> for the callback.\<close>

definition NewTestServer ::
  "poller \<Rightarrow> Env \<Rightarrow> uint64 \<Rightarrow> TestServer test_exec \<times> event list \<times> uint64" where
  "NewTestServer W env offset = NewTestServerConfig W env None offset"

text \<open>
  \<open>Stop\<close> (lines 122 to 129), given what \<open>cmd.Run()\<close> of the \<open>kill\<close> command returns.
  The removal of the data directory is deferred first, so it runs when the function
  leaves, by its end or by the panic.
\<close>

definition Stop :: "TestServer \<Rightarrow> error option \<Rightarrow> unit exec \<times> event list" where
  "Stop s run_result =
     (let deferred = [RemoveAll_call (dataDir s)];
          ran = [Run_call [''kill'', ''-9'', fmt_d (pid s)]]
      in case run_result of
           Some err \<Rightarrow> (Panics (Some err), ran @ deferred)
         | None \<Rightarrow> (Returns (), ran @ deferred))"

text \<open>The documents written to files among a list of calls, with the files' names.\<close>

fun written :: "event list \<Rightarrow> (string \<times> json) list" where
  "written [] = []"
| "written (Write_call f doc # evs) = (f, doc) # written evs"
| "written (_ # evs) = written evs"

subsection \<open>Concrete inputs\<close>

text \<open>A response whose header says that the leader is known and that the index is 5.\<close>

definition resp_ready :: Response where
  "resp_ready = \<lparr>Header = [''X-Consul-Knownleader'' \<mapsto> [''true''], ''X-Consul-Index'' \<mapsto> [''5'']]\<rparr>"

text \<open>A response with a known leader and no index header at all.\<close>

definition resp_no_index :: Response where
  "resp_no_index = \<lparr>Header = [''X-Consul-Knownleader'' \<mapsto> [''true'']]\<rparr>"

text \<open>A response whose leader header is spelled \<open>True\<close>.\<close>

definition resp_True :: Response where
  "resp_True = \<lparr>Header = [''X-Consul-Knownleader'' \<mapsto> [''True''], ''X-Consul-Index'' \<mapsto> [''5'']]\<rparr>"

text \<open>An environment where every call succeeds and the server is ready at once.\<close>

definition env_ready :: Env where
  "env_ready =
     \<lparr> lookPath = Inr ''/usr/bin/consul'',
       tempDir = Inr ''/tmp/consul1'',
       tempFile = Inr ''/tmp/consul2'',
       fileWrite = None,
       cmdStart = Inr 4242,
       httpGet = (\<lambda>k url. Inr resp_ready) \<rparr>"

text \<open>An environment where the binary is not on the search path.\<close>

definition env_no_binary :: Env where
  "env_no_binary = env_ready\<lparr>lookPath := Inl (OSError ''executable file not found in $PATH'')\<rparr>"

text \<open>An environment where nothing ever answers the HTTP requests.\<close>

definition env_refused :: Env where
  "env_refused = env_ready\<lparr>httpGet := (\<lambda>k url. Inl (OSError ''connection refused''))\<rparr>"

text \<open>
  Three callbacks: one sets the data directory to a path, one to the empty string, one
  to the single byte FF, which is not UTF-8.
\<close>

definition setDataDir :: "TestServerConfig \<Rightarrow> TestServerConfig" where
  "setDataDir c = c\<lparr>DataDir := ''/data/custom''\<rparr>"

definition clearDataDir :: "TestServerConfig \<Rightarrow> TestServerConfig" where
  "clearDataDir c = c\<lparr>DataDir := []\<rparr>"

definition setBadDataDir :: "TestServerConfig \<Rightarrow> TestServerConfig" where
  "setBadDataDir c = c\<lparr>DataDir := [CHR 0xFF]\<rparr>"

definition server_4242 :: TestServer where
  "server_4242 = \<lparr>pid = 4242, dataDir = ''/tmp/consul1'', config = defaultConfigFor 1\<rparr>"

section \<open>Properties\<close>

subsection \<open>Ports\<close>

lemma base_separation:
  "\<forall>b\<in>set (port_list (defaultPorts 0)). \<forall>b'\<in>set (port_list (defaultPorts 0)).
     sint (b' - b) = 0 \<or> 200 \<le> \<bar>sint (b' - b)\<bar>"
  by (simp add: port_list_def defaultPorts_def)

lemma port_list_defaultPorts:
  "port_list (defaultPorts idx) = map (\<lambda>b. b + idx) (port_list (defaultPorts 0))"
  by (simp add: port_list_def defaultPorts_def)

lemma sint_diff_small:
  fixes i j :: go_int
  assumes "\<bar>sint i - sint j\<bar> < 200"
  shows "sint (i - j) = sint i - sint j"
proof -
  have "- (2 ^ 63) \<le> sint i - sint j" and "sint i - sint j < 2 ^ 63"
    using assms by simp_all
  then have "signed_take_bit 63 (sint i - sint j) = sint i - sint j"
    by (rule signed_take_bit_int_eq_self)
  then show ?thesis
    by (simp add: sint_word_diff)
qed

text \<open>
  C2. For two indices \<open>i \<noteq> j\<close> whose distance is below 200, the smallest distance
  between two bases, no port of instance \<open>i\<close> is a port of instance \<open>j\<close>.
\<close>

theorem ports_disjoint:
  fixes i j :: go_int
  assumes "i \<noteq> j" and "\<bar>sint i - sint j\<bar> < 200"
  shows "set (port_list (defaultPorts i)) \<inter> set (port_list (defaultPorts j)) = {}"
proof (rule ccontr)
  assume "set (port_list (defaultPorts i)) \<inter> set (port_list (defaultPorts j)) \<noteq> {}"
  then obtain b b' where b: "b \<in> set (port_list (defaultPorts 0))"
    and b': "b' \<in> set (port_list (defaultPorts 0))" and eq: "b + i = b' + j"
    unfolding port_list_defaultPorts [of i] port_list_defaultPorts [of j] by auto
  from eq have "i - j = b' - b"
    by (simp add: algebra_simps)
  then have d: "sint (b' - b) = sint i - sint j"
    using sint_diff_small [OF assms(2)] by simp
  from \<open>i \<noteq> j\<close> have "sint i - sint j \<noteq> 0"
    by (auto dest: signed_word_eqI)
  moreover from base_separation b b'
  have "sint (b' - b) = 0 \<or> 200 \<le> \<bar>sint (b' - b)\<bar>"
    by blast
  ultimately show False
    using d assms(2) by linarith
qed

theorem ports_disjoint_witness:
  "(1 :: go_int) \<noteq> 2 \<and> \<bar>sint (1 :: go_int) - sint (2 :: go_int)\<bar> < 200
   \<and> set (port_list (defaultPorts 1)) \<inter> set (port_list (defaultPorts 2)) = {}"
  using ports_disjoint [of 1 2] by simp

text \<open>The bound is sharp: at distance 200 the DNS port of one is the HTTP port of the other.\<close>

lemma ports_collide_at_200:
  "DNS (defaultPorts 1) = HTTP (defaultPorts 201)"
  by (simp add: defaultPorts_def)

text \<open>
  C3. The ports are a function of the index alone, each its base plus the index, the
  index being the new value of the counter; for index 1 they are DNS 19001, HTTP 18801,
  RPC 18601, Serf LAN 18201, Serf WAN 18401 and server 18001.
\<close>

theorem default_ports_of_index:
  "Ports (fst (defaultServerConfig offset)) = Some (defaultPorts (fst (next_idx offset)))
   \<and> fst (next_idx offset) = offset + 1
   \<and> defaultPorts idx =
       \<lparr> DNS = 19000 + idx, HTTP = 18800 + idx, RPC = 18600 + idx,
         SerfLan = 18200 + idx, SerfWan = 18400 + idx, Server = 18000 + idx \<rparr>
   \<and> Ports (fst (defaultServerConfig 0)) =
       Some \<lparr> DNS = 19001, HTTP = 18801, RPC = 18601, SerfLan = 18201, SerfWan = 18401,
              Server = 18001 \<rparr>"
  by (simp add: defaultServerConfig_def next_idx_def atomic_AddUint64_def defaultConfigFor_def
      defaultPorts_def)

subsection \<open>The index allocator\<close>

lemma alloc_seq_map:
  "alloc_seq n offset = map (\<lambda>k. offset + of_nat (Suc k)) [0..<n]"
proof (induction n arbitrary: offset)
  case 0
  show ?case by simp
next
  case (Suc n)
  have "alloc_seq (Suc n) offset = (offset + 1) # alloc_seq n (offset + 1)"
    by (simp add: next_idx_def atomic_AddUint64_def)
  also have "\<dots> = (offset + 1) # map (\<lambda>k. offset + 1 + of_nat (Suc k)) [0..<n]"
    by (simp only: Suc.IH)
  also have "\<dots> = map (\<lambda>k. offset + of_nat (Suc k)) [0..<Suc n]"
    by (simp add: map_upt_Suc add.assoc del: upt_Suc)
  finally show ?case .
qed

lemma alloc_seq_nth:
  "k < n \<Longrightarrow> alloc_seq n offset ! k = offset + of_nat (Suc k)"
  by (simp add: alloc_seq_map)

lemma length_alloc_seq: "length (alloc_seq n offset) = n"
  by (simp add: alloc_seq_map)

lemma sint_of_nat_small:
  assumes "m < 2 ^ 63"
  shows "sint (of_nat m :: go_int) = int m"
proof -
  have "- (2 ^ 63) \<le> int m"
    by (rule order_trans [of _ 0]) simp_all
  moreover have "int m < 2 ^ 63"
    using assms
    by (simp add: of_nat_less_numeral_power_cancel_iff [symmetric]
        del: of_nat_less_numeral_power_cancel_iff)
  ultimately have "signed_take_bit 63 (int m) = int m"
    by (rule signed_take_bit_int_eq_self)
  then show ?thesis
    by (simp add: signed_of_nat)
qed

lemma alloc_seq_distinct:
  assumes "n \<le> 2 ^ 64"
  shows "distinct (alloc_seq n 0)"
proof -
  have ne: "alloc_seq n 0 ! k \<noteq> alloc_seq n 0 ! l" if "k < l" "l < n" for k l
  proof
    assume "alloc_seq n 0 ! k = alloc_seq n 0 ! l"
    moreover from that have "alloc_seq n 0 ! k = of_nat (Suc k)"
      and "alloc_seq n 0 ! l = of_nat (Suc l)"
      by (simp_all add: alloc_seq_nth del: of_nat_Suc)
    ultimately have "unat (of_nat (Suc k) :: go_int) = unat (of_nat (Suc l) :: go_int)"
      by (simp only:)
    moreover have "unat (of_nat m :: go_int) = m mod 2 ^ 64" for m
      by (simp add: unat_of_nat)
    ultimately have eq: "Suc k mod 2 ^ 64 = Suc l mod 2 ^ 64"
      by (simp only:)
    from that assms have small: "Suc k < 2 ^ 64" and le: "Suc l \<le> 2 ^ 64"
      by simp_all
    show False
    proof (cases "Suc l = 2 ^ 64")
      case True
      with eq small show False by simp
    next
      case False
      with le have "Suc l < 2 ^ 64" by simp
      with eq small that show False by simp
    qed
  qed
  then show ?thesis
    by (metis length_alloc_seq distinct_conv_nth nat_neq_iff)
qed

text \<open>
  C4, as amended. The counter starts at 0, so the first call returns 1, and the \<open>k\<close>-th
  call returns \<open>k\<close> as a 64-bit value. An index returned by one of the first
  \<open>2 ^ 63 - 1\<close> calls is greater than all the indices returned before it, and among
  the first \<open>2 ^ 64\<close> calls no value is returned twice.
\<close>

theorem alloc_increasing:
  "alloc_seq n 0 = map of_nat [1..<Suc n]
    \<and> (0 < n \<longrightarrow> alloc_seq n 0 ! 0 = 1)
    \<and> (\<forall>k l. k < l \<and> l < n \<and> Suc l < 2 ^ 63
          \<longrightarrow> sint (alloc_seq n 0 ! k) < sint (alloc_seq n 0 ! l))
    \<and> (n \<le> 2 ^ 64 \<longrightarrow> distinct (alloc_seq n 0))"
proof -
  have nth: "sint (alloc_seq n 0 ! k) = int (Suc k)" if "k < n" "Suc k < 2 ^ 63" for k
  proof -
    from that(2) have "sint (of_nat (Suc k) :: go_int) = int (Suc k)"
      by (rule sint_of_nat_small)
    with that(1) show ?thesis
      by (simp add: alloc_seq_nth)
  qed
  have incr: "sint (alloc_seq n 0 ! k) < sint (alloc_seq n 0 ! l)"
    if "k < l" "l < n" "Suc l < 2 ^ 63" for k l
  proof -
    from that have "k < n" and "Suc k < 2 ^ 63" by simp_all
    then have "sint (alloc_seq n 0 ! k) = int (Suc k)" by (rule nth)
    moreover from that have "sint (alloc_seq n 0 ! l) = int (Suc l)" by (simp add: nth)
    ultimately show ?thesis using that(1) by simp
  qed
  have first: "alloc_seq n 0 ! 0 = 1" if "0 < n"
    using that by (simp add: alloc_seq_nth)
  have "alloc_seq n 0 = map of_nat [1..<Suc n]"
    by (simp add: alloc_seq_map map_Suc_upt [symmetric] del: upt_Suc)
  then show ?thesis
    using incr first alloc_seq_distinct by blast
qed

theorem alloc_increasing_witness:
  "alloc_seq 3 0 = [1, 2, 3]
    \<and> sint (alloc_seq 3 0 ! 0) < sint (alloc_seq 3 0 ! 1)
    \<and> sint (alloc_seq 3 0 ! 1) < sint (alloc_seq 3 0 ! 2)
    \<and> sint (alloc_seq 3 0 ! 0) < sint (alloc_seq 3 0 ! 2)
    \<and> (3 :: nat) \<le> 2 ^ 64 \<and> distinct (alloc_seq 3 0)"
  using alloc_increasing [of 3] by (simp add: upt_rec)

text \<open>
  The claim as written, for every sequence of calls, fails where the index wraps: the
  call number \<open>2 ^ 63\<close> returns an index below the one of the first call, and the call
  number \<open>2 ^ 64 + 1\<close> returns the index of the first call again.
\<close>

theorem alloc_wraps_counterexample:
  "sint (alloc_seq 9223372036854775808 0 ! 9223372036854775807)
     < sint (alloc_seq 9223372036854775808 0 ! 0)
   \<and> alloc_seq 18446744073709551617 0 ! 18446744073709551616
     = alloc_seq 18446744073709551617 0 ! 0"
proof -
  have "alloc_seq 9223372036854775808 0 ! 9223372036854775807 = (9223372036854775808 :: go_int)"
    by (simp add: alloc_seq_nth)
  moreover have "alloc_seq 9223372036854775808 0 ! 0 = (1 :: go_int)"
    by (simp add: alloc_seq_nth)
  moreover have "alloc_seq 18446744073709551617 0 ! 18446744073709551616 = (1 :: go_int)"
    by (simp add: alloc_seq_nth)
  moreover have "alloc_seq 18446744073709551617 0 ! 0 = (1 :: go_int)"
    by (simp add: alloc_seq_nth)
  ultimately show ?thesis by simp
qed

subsection \<open>The readiness check\<close>

lemma canonical_leader_key:
  "CanonicalMIMEHeaderKey ''X-Consul-KnownLeader'' = ''X-Consul-Knownleader''"
  by code_simp

lemma canonical_index_key:
  "CanonicalMIMEHeaderKey ''X-Consul-Index'' = ''X-Consul-Index''"
  by code_simp

lemma Header_Get_absent:
  "h (CanonicalMIMEHeaderKey key) = None \<Longrightarrow> Header_Get h key = []"
  by (simp add: Header_Get_def)

lemma leaderCheck_Inl: "leaderCheck (Inl err) = ([], False, Some err)"
  by (simp add: leaderCheck_def)

lemma leaderCheck_Inr:
  "snd (leaderCheck (Inr resp)) =
     (if Header_Get (Header resp) ''X-Consul-KnownLeader'' \<noteq> ''true''
      then (False, Some (LeaderStatusError (Header_Get (Header resp) ''X-Consul-KnownLeader'')))
      else if Header_Get (Header resp) ''X-Consul-Index'' = ''0'' then (False, Some IndexZeroError)
      else (True, None))"
  by (simp add: leaderCheck_def Let_def)

text \<open>
  What the check does: it returns \<open>(true, nil)\<close> exactly when the request gave a
  response, \<open>Get\<close> of the leader header is the string \<open>true\<close>, and \<open>Get\<close> of the index
  header is not the string \<open>0\<close>; in every other case it returns \<open>false\<close> with an error
  that is not \<open>nil\<close>.
\<close>

lemma leaderCheck_ready_iff:
  "(snd (leaderCheck got) = (True, None)) =
     (\<exists>resp. got = Inr resp
        \<and> Header_Get (Header resp) ''X-Consul-KnownLeader'' = ''true''
        \<and> Header_Get (Header resp) ''X-Consul-Index'' \<noteq> ''0'')
   \<and> (snd (leaderCheck got) = (True, None) \<or> (\<exists>err. snd (leaderCheck got) = (False, Some err)))"
proof (cases got)
  case (Inl err)
  then show ?thesis by (simp add: leaderCheck_Inl)
next
  case (Inr resp)
  then show ?thesis by (simp add: leaderCheck_Inr)
qed

lemma leaderCheck_ready_example:
  "snd (leaderCheck (Inr resp_ready)) = (True, None)
   \<and> snd (leaderCheck (Inl (OSError ''connection refused''))) =
       (False, Some (OSError ''connection refused''))"
  by (simp add: leaderCheck_def Header_Get_def canonical_leader_key canonical_index_key
      resp_ready_def)

text \<open>
  C1. The check is to succeed only when the index header is present and not zero (the
  comment on line 141 says that it ensures a node registration). The code does not do
  so: for a response with a known leader and no index header, \<open>Get\<close> gives the empty
  string, which is not \<open>0\<close>, and the check returns \<open>(true, nil)\<close>, printing nothing.
  The test of the leader header, two lines above, does reject a header that is absent.
\<close>

theorem leaderCheck_accepts_absent_index:
  "Header resp_no_index (CanonicalMIMEHeaderKey ''X-Consul-Index'') = None
   \<and> Header_Get (Header resp_no_index) ''X-Consul-Index'' = []
   \<and> leaderCheck (Inr resp_no_index) = ([], True, None)"
  by (simp add: leaderCheck_def Header_Get_def canonical_leader_key canonical_index_key
      resp_no_index_def)

text \<open>
  C8. The leader header is accepted only as the exact string \<open>true\<close>: any other value,
  and its absence, give \<open>false\<close>. With the leader accepted, the check fails only when
  the index header reads as the exact string \<open>0\<close>; an absent index header reads as
  the empty string and passes.
\<close>

theorem leaderCheck_exact_strings:
  "(Header_Get (Header resp) ''X-Consul-KnownLeader'' \<noteq> ''true''
      \<longrightarrow> fst (snd (leaderCheck (Inr resp))) = False)
   \<and> (Header resp (CanonicalMIMEHeaderKey ''X-Consul-KnownLeader'') = None
      \<longrightarrow> fst (snd (leaderCheck (Inr resp))) = False)
   \<and> (Header_Get (Header resp) ''X-Consul-KnownLeader'' = ''true''
      \<longrightarrow> fst (snd (leaderCheck (Inr resp))) =
            (Header_Get (Header resp) ''X-Consul-Index'' \<noteq> ''0''))
   \<and> (Header_Get (Header resp) ''X-Consul-KnownLeader'' = ''true''
        \<and> Header resp (CanonicalMIMEHeaderKey ''X-Consul-Index'') = None
      \<longrightarrow> snd (leaderCheck (Inr resp)) = (True, None))"
  by (auto simp add: leaderCheck_Inr Header_Get_absent)

theorem leaderCheck_exact_strings_witness:
  "Header_Get (Header resp_True) ''X-Consul-KnownLeader'' = ''True''
   \<and> fst (snd (leaderCheck (Inr resp_True))) = False
   \<and> Header_Get (Header resp_no_index) ''X-Consul-KnownLeader'' = ''true''
   \<and> Header resp_no_index (CanonicalMIMEHeaderKey ''X-Consul-Index'') = None
   \<and> snd (leaderCheck (Inr resp_no_index)) = (True, None)"
  using leaderCheck_exact_strings [of resp_True] leaderCheck_exact_strings [of resp_no_index]
  by (simp add: Header_Get_def canonical_leader_key canonical_index_key resp_True_def
      resp_no_index_def)

subsection \<open>Waiting for the leader\<close>






lemma waitForLeader_gives_up_by_panic:
  "waitForLeader (WaitForResult 3) server_4242 (httpGet env_refused) =
     Panics (Some (OSError ''connection refused''))"
  by (simp add: waitForLeader_def WaitForResult_def server_4242_def defaultConfigFor_def
      env_refused_def env_ready_def leaderCheck_def numeral_3_eq_3)

lemma waitForLeader_ready_at_once:
  "waitForLeader (WaitForResult 3) server_4242 (httpGet env_ready) = Returns None"
  by (simp add: waitForLeader_def WaitForResult_def server_4242_def defaultConfigFor_def
      env_ready_def leaderCheck_def numeral_3_eq_3 resp_ready_def Header_Get_def
      canonical_leader_key canonical_index_key)





subsection \<open>Starting a server\<close>

lemma written_append: "written (xs @ ys) = written xs @ written ys"
  by (induction xs rule: written.induct) simp_all

lemma written_launch:
  "written (fst (snd (launch W env cb dir file offset))) =
     [(file, Marshal_TestServerConfig
        ((case cb of None \<Rightarrow> (\<lambda>c. c) | Some f \<Rightarrow> f)
           ((defaultConfigFor (offset + 1))\<lparr>DataDir := dir\<rparr>)))]"
  by (simp add: launch_def Let_def json_Marshal_def defaultServerConfig_def next_idx_def
      atomic_AddUint64_def split: option.split sum.split exec.split)

lemma data_dir_member:
  "json_member (Marshal_TestServerConfig c) ''data_dir'' =
     (if DataDir c = [] then None else Some (JString (json_string_value (DataDir c))))"
  by (simp add: Marshal_TestServerConfig_def omitempty_bool_def omitempty_string_def
      omitempty_ptr_def split: option.split)

lemma json_string_value_valid: "ValidString s \<Longrightarrow> json_string_value s = s"
proof (induction s rule: json_string_value.induct)
  case 1
  show ?case by simp
next
  case (2 c cs)
  from "2.prems" have nz: "rune_size (c # cs) \<noteq> 0"
    and rest: "ValidString (drop (rune_size (c # cs)) (c # cs))"
    by (simp_all add: ValidString.simps(2) split: if_splits)
  from "2.IH"(2) [OF nz rest] nz show ?case
    by (simp add: json_string_value.simps(2) del: take_Suc_Cons drop_Suc_Cons)
qed

lemma ValidString_custom: "ValidString ''/data/custom''"
  by code_simp

lemma json_string_value_debug: "json_string_value ''debug'' = ''debug''"
  by code_simp

lemma json_string_value_FF: "json_string_value [CHR 0xFF] = [CHR 0xEF, CHR 0xBF, CHR 0xBD]"
  by code_simp

lemma written_NewTestServerConfig:
  assumes "lookPath env = Inr path" and "path \<noteq> []"
    and "tempDir env = Inr dir" and "tempFile env = Inr file"
  shows "written (fst (snd (NewTestServerConfig W env cb offset))) =
     written (fst (snd (launch W env cb dir file offset)))"
proof -
  have "fst (snd (NewTestServerConfig W env cb offset)) =
      [LookPath_call ''consul'', TempDir_call [] ''consul'', TempFile_call [] ''consul'']
      @ fst (snd (launch W env cb dir file offset))
      @ (if fst (launch W env cb dir file offset) = Hangs then [] else [Remove_call file])"
    using assms by (simp add: NewTestServerConfig_def case_prod_beta)
  then show ?thesis
    by (simp add: written_append)
qed

text \<open>
  C5, as amended. When the binary, the data directory and the configuration file are
  there, the one document written is the serialization of what the callback made of the
  defaults with the data directory assigned. When the callback leaves a string in the
  data directory field that is not empty and is valid UTF-8, the \<open>data_dir\<close> member of
  the document is that string; bytes that are not UTF-8 are written as U+FFFD; when
  the string is empty the document has no \<open>data_dir\<close> member.
\<close>

theorem callback_result_is_serialized:
  assumes "lookPath env = Inr path" and "path \<noteq> []"
    and "tempDir env = Inr dir" and "tempFile env = Inr file"
  shows "written (fst (snd (NewTestServerConfig W env (Some cb) offset))) =
      [(file, Marshal_TestServerConfig (cb ((defaultConfigFor (offset + 1))\<lparr>DataDir := dir\<rparr>)))]
    \<and> json_member
        (Marshal_TestServerConfig (cb ((defaultConfigFor (offset + 1))\<lparr>DataDir := dir\<rparr>)))
        ''data_dir'' =
      (if DataDir (cb ((defaultConfigFor (offset + 1))\<lparr>DataDir := dir\<rparr>)) = [] then None
       else Some (JString (json_string_value
              (DataDir (cb ((defaultConfigFor (offset + 1))\<lparr>DataDir := dir\<rparr>))))))
    \<and> (DataDir (cb ((defaultConfigFor (offset + 1))\<lparr>DataDir := dir\<rparr>)) \<noteq> []
        \<and> ValidString (DataDir (cb ((defaultConfigFor (offset + 1))\<lparr>DataDir := dir\<rparr>)))
       \<longrightarrow> json_member
          (Marshal_TestServerConfig (cb ((defaultConfigFor (offset + 1))\<lparr>DataDir := dir\<rparr>)))
          ''data_dir'' =
        Some (JString (DataDir (cb ((defaultConfigFor (offset + 1))\<lparr>DataDir := dir\<rparr>)))))"
  using written_NewTestServerConfig [OF assms, of W "Some cb" offset]
  by (simp add: written_launch data_dir_member json_string_value_valid)

theorem callback_result_is_serialized_witness:
  "lookPath env_ready = Inr ''/usr/bin/consul'' \<and> tempDir env_ready = Inr ''/tmp/consul1''
   \<and> tempFile env_ready = Inr ''/tmp/consul2''
   \<and> ValidString ''/data/custom''
   \<and> written (fst (snd (NewTestServerConfig (WaitForResult 3) env_ready (Some setDataDir) 0))) =
      [(''/tmp/consul2'',
        Marshal_TestServerConfig (setDataDir ((defaultConfigFor 1)\<lparr>DataDir := ''/tmp/consul1''\<rparr>)))]
   \<and> json_member
        (Marshal_TestServerConfig (setDataDir ((defaultConfigFor 1)\<lparr>DataDir := ''/tmp/consul1''\<rparr>)))
        ''data_dir'' = Some (JString ''/data/custom'')"
  using callback_result_is_serialized [of env_ready "''/usr/bin/consul''" "''/tmp/consul1''"
      "''/tmp/consul2''" "WaitForResult 3" setDataDir 0]
  by (simp add: env_ready_def setDataDir_def ValidString_custom
      json_string_value_valid [OF ValidString_custom])

text \<open>
  The claim as written, for every callback, fails for the callback that sets the data
  directory to the empty string: the document written has no \<open>data_dir\<close> member. It
  fails as well for the callback that sets it to the byte FF: the member written is the
  replacement character, not that byte.
\<close>

theorem empty_data_dir_counterexample:
  "DataDir (clearDataDir ((defaultConfigFor 1)\<lparr>DataDir := ''/tmp/consul1''\<rparr>)) = []
   \<and> written (fst (snd (NewTestServerConfig (WaitForResult 3) env_ready (Some clearDataDir) 0))) =
      [(''/tmp/consul2'',
        JObject [(''bootstrap'', JBool True), (''server'', JBool True),
          (''log_level'', JString ''debug''),
          (''ports'', JObject [(''dns'', JNumber 19001), (''http'', JNumber 18801),
             (''rpc'', JNumber 18601), (''serf_lan'', JNumber 18201),
             (''serf_wan'', JNumber 18401), (''server'', JNumber 18001)])])]
   \<and> json_member
        (Marshal_TestServerConfig (clearDataDir ((defaultConfigFor 1)\<lparr>DataDir := ''/tmp/consul1''\<rparr>)))
        ''data_dir'' \<noteq> Some (JString [])
   \<and> DataDir (setBadDataDir ((defaultConfigFor 1)\<lparr>DataDir := ''/tmp/consul1''\<rparr>)) = [CHR 0xFF]
   \<and> written (fst (snd (NewTestServerConfig (WaitForResult 3) env_ready (Some setBadDataDir) 0))) =
      [(''/tmp/consul2'',
        JObject [(''bootstrap'', JBool True), (''server'', JBool True),
          (''data_dir'', JString [CHR 0xEF, CHR 0xBF, CHR 0xBD]),
          (''log_level'', JString ''debug''),
          (''ports'', JObject [(''dns'', JNumber 19001), (''http'', JNumber 18801),
             (''rpc'', JNumber 18601), (''serf_lan'', JNumber 18201),
             (''serf_wan'', JNumber 18401), (''server'', JNumber 18001)])])]
   \<and> json_member
        (Marshal_TestServerConfig (setBadDataDir ((defaultConfigFor 1)\<lparr>DataDir := ''/tmp/consul1''\<rparr>)))
        ''data_dir'' \<noteq> Some (JString [CHR 0xFF])"
proof -
  have w: "written (fst (snd (NewTestServerConfig (WaitForResult 3) env_ready (Some cb) 0))) =
      [(''/tmp/consul2'',
        Marshal_TestServerConfig (cb ((defaultConfigFor 1)\<lparr>DataDir := ''/tmp/consul1''\<rparr>)))]"
    for cb
  proof -
    have "written (fst (snd (NewTestServerConfig (WaitForResult 3) env_ready (Some cb) 0))) =
        written (fst (snd (launch (WaitForResult 3) env_ready (Some cb)
          ''/tmp/consul1'' ''/tmp/consul2'' 0)))"
      by (rule written_NewTestServerConfig [of _ "''/usr/bin/consul''"])
        (simp_all add: env_ready_def)
    then show ?thesis
      by (simp add: written_launch)
  qed
  have empty:
    "Marshal_TestServerConfig (clearDataDir ((defaultConfigFor 1)\<lparr>DataDir := ''/tmp/consul1''\<rparr>)) =
      JObject [(''bootstrap'', JBool True), (''server'', JBool True),
          (''log_level'', JString ''debug''),
          (''ports'', JObject [(''dns'', JNumber 19001), (''http'', JNumber 18801),
             (''rpc'', JNumber 18601), (''serf_lan'', JNumber 18201),
             (''serf_wan'', JNumber 18401), (''server'', JNumber 18001)])]"
    by (simp add: clearDataDir_def defaultConfigFor_def defaultPorts_def
        Marshal_TestServerConfig_def Marshal_TestPortConfig_def omitempty_bool_def
        omitempty_string_def omitempty_ptr_def omitempty_int_def json_string_value_debug)
  have bad:
    "Marshal_TestServerConfig (setBadDataDir ((defaultConfigFor 1)\<lparr>DataDir := ''/tmp/consul1''\<rparr>)) =
      JObject [(''bootstrap'', JBool True), (''server'', JBool True),
          (''data_dir'', JString [CHR 0xEF, CHR 0xBF, CHR 0xBD]),
          (''log_level'', JString ''debug''),
          (''ports'', JObject [(''dns'', JNumber 19001), (''http'', JNumber 18801),
             (''rpc'', JNumber 18601), (''serf_lan'', JNumber 18201),
             (''serf_wan'', JNumber 18401), (''server'', JNumber 18001)])]"
    by (simp add: setBadDataDir_def defaultConfigFor_def defaultPorts_def
        Marshal_TestServerConfig_def Marshal_TestPortConfig_def omitempty_bool_def
        omitempty_string_def omitempty_ptr_def omitempty_int_def json_string_value_debug
        json_string_value_FF)
  show ?thesis
    unfolding w empty bad by (simp add: clearDataDir_def setBadDataDir_def)
qed

text \<open>
  C6. When \<open>exec.LookPath\<close> gives an error or an empty path, the test is skipped:
  after the lookup the only calls are \<open>t.Log\<close> and \<open>t.SkipNow\<close>, nothing is created or
  started, and the counter is left as it was.
\<close>

theorem binary_not_found_skips:
  assumes "lookPath env = Inl err \<or> lookPath env = Inr []"
  shows "NewTestServerConfig W env cb offset =
    (Skipped,
     [LookPath_call ''consul'', Log_call ''consul not found on $PATH, skipping'', SkipNow_call],
     offset)"
  using assms by (auto simp add: NewTestServerConfig_def)

theorem binary_not_found_skips_witness:
  "lookPath env_no_binary = Inl (OSError ''executable file not found in $PATH'')
   \<and> NewTestServerConfig (WaitForResult 3) env_no_binary None 0 =
    (Skipped,
     [LookPath_call ''consul'', Log_call ''consul not found on $PATH, skipping'', SkipNow_call],
     0)"
  using binary_not_found_skips [of env_no_binary "OSError ''executable file not found in $PATH''"
      "WaitForResult 3" None 0]
  by (simp add: env_no_binary_def)

subsection \<open>Stopping a server\<close>

text \<open>
  C7. \<open>Stop\<close> runs \<open>kill -9\<close> on the decimal form of the stored pid. When the command
  fails, \<open>Stop\<close> panics with its error; when it succeeds, \<open>Stop\<close> returns, and the data
  directory of the handle is removed.
\<close>

theorem Stop_kills_then_panics_or_returns:
  "Stop s (Some err) =
     (Panics (Some err), [Run_call [''kill'', ''-9'', fmt_d (pid s)], RemoveAll_call (dataDir s)])
   \<and> Stop s None =
     (Returns (), [Run_call [''kill'', ''-9'', fmt_d (pid s)], RemoveAll_call (dataDir s)])"
  by (simp add: Stop_def)

text \<open>
  C10. However the \<open>kill\<close> command ends, the last call of \<open>Stop\<close> is the removal of the
  data directory, made once; in particular it is made on the path where \<open>Stop\<close> panics.
\<close>

theorem Stop_always_removes_dataDir:
  "last (snd (Stop s run_result)) = RemoveAll_call (dataDir s)
   \<and> count_list (snd (Stop s run_result)) (RemoveAll_call (dataDir s)) = 1
   \<and> fst (Stop s (Some err)) = Panics (Some err)
   \<and> RemoveAll_call (dataDir s) \<in> set (snd (Stop s (Some err)))"
  by (cases run_result) (simp_all add: Stop_def)

lemma Stop_server_4242:
  "Stop server_4242 (Some (OSError ''exit status 1'')) =
     (Panics (Some (OSError ''exit status 1'')),
      [Run_call [''kill'', ''-9'', ''4242''], RemoveAll_call ''/tmp/consul1''])"
  by (simp add: Stop_def server_4242_def fmt_d_def dec_nat.simps)

end
